theory Spec2Isabelle
  imports Main "HOL-Library.Sublist" "HOL-Library.AList"
begin

section \<open>The broker of background.js: data\<close>

text \<open>
  The background script keeps its state in module-level dictionaries and reacts to
  messages arriving on ports. A handler that throws leaves behind whatever it had
  already written, so every handler below returns the error (if any), the state reached
  and the calls it made to the outside (messages posted, badge calls, fetches).
\<close>

datatype error = TypeError | ReferenceError

text \<open>Entries of directory.json: \<open>{name, start_url, manifest, intents: [{name, display_name}]}\<close>.\<close>

record intent_decl =
  decl_name :: string
  display_name :: string

record entry =
  name :: string
  start_url :: "string option"
  manifest :: "string option"
  intents :: "intent_decl list option"

text \<open>
  A port object. \<open>sender.id\<close>, \<open>sender.tab.id\<close> and \<open>sender.url\<close> never change; \<open>pid\<close> is the
  identity of the object (two ports of one tab are two objects). The properties the
  script adds to a port later (\<open>port.channel\<close>, \<open>port.directoryData\<close>) live in the
  state, keyed by \<open>pid\<close>, because the same object is reachable from \<open>connected\<close> and
  from \<open>intentListeners\<close>.
\<close>

record port =
  pid :: nat
  sender_id :: string
  tab_id :: nat
  sender_url :: string

text \<open>
  A context: its \<open>type\<close>, its other top-level fields, and the optional nested \<open>id\<close>
  object.
\<close>

record fdc3_context =
  ctype :: string
  cfields :: "(string \<times> string) list"
  cid :: "(string \<times> string) list option"

text \<open>One element of the imported \<open>channels\<close> array (\<open>./system-channels\<close>).\<close>

record channel =
  chan_id :: string
  color :: string

datatype candidate = Window port | Directory entry

datatype payload =
    ContextData "fdc3_context option"
  | IntentData string fdc3_context
  | EnvironmentData entry "string option" nat

datatype message = Message string payload

text \<open>What runs once a fetched manifest has been parsed.\<close>

datatype continuation =
    OpenApp string
  | LaunchRaised string fdc3_context
  | LaunchResolved entry string fdc3_context

datatype effect =
    PostMessage port message
  | FetchOnConnect string port entry "string option"
  | SetBadgeText string nat
  | SetBadgeBackgroundColor string nat
  | Fetch "string option" continuation
  | ShowResolver "candidate list" string fdc3_context
  | TabsSendMessage nat string
  | WindowOpen "string option" "string option"
  | WindowFocus

record broker =
  directory :: "entry list option"
  connected :: "string \<rightharpoonup> port"
  contexts :: "string \<rightharpoonup> fdc3_context list"
  tabChannels :: "string \<rightharpoonup> string"
  contextListeners :: "string \<rightharpoonup> string list"
  intentListeners :: "string \<rightharpoonup> port list"
  port_channel :: "nat \<rightharpoonup> string"
  port_directoryData :: "nat \<rightharpoonup> entry"

datatype result = Result (err: "error option") (st: broker) (out: "effect list")

section \<open>Plain objects as dictionaries\<close>

text \<open>
  The dictionaries of the script, the contexts and the manifests are plain objects, so
  \<open>obj[key]\<close> also finds what \<open>Object.prototype\<close> supplies. These are the names it
  supplies in the browser the script runs in. What is found under them is a function, or
  \<open>Object.prototype\<close> itself for \<open>__proto__\<close>: truthy, and without any array method.
  The maps of the state hold the own properties only.
\<close>

definition prototype_names :: "string list" where
  "prototype_names =
     [''constructor'', ''__defineGetter__'', ''__defineSetter__'', ''hasOwnProperty'',
      ''__lookupGetter__'', ''__lookupSetter__'', ''isPrototypeOf'', ''propertyIsEnumerable'',
      ''toString'', ''valueOf'', ''__proto__'', ''toLocaleString'']"

definition inherited :: "string \<Rightarrow> bool" where
  "inherited k = (k \<in> set prototype_names)"

datatype 'a property = Own 'a | Inherited | Missing

definition get_property :: "(string \<rightharpoonup> 'a) \<Rightarrow> string \<Rightarrow> 'a property" where
  "get_property obj k =
     (case obj k of
        Some v \<Rightarrow> Own v
      | None \<Rightarrow> if inherited k then Inherited else Missing)"

text \<open>
  Where the script goes on to call an array method on what it found (\<open>push\<close>,
  \<open>unshift\<close>, \<open>filter\<close>, \<open>forEach\<close>) or \<open>postMessage\<close>, an inherited property
  throws the same TypeError as a missing one; such reads are written as lookups in
  the map, and \<open>get_property\<close> is used where the two differ.
\<close>

section \<open>Identities\<close>

text \<open>
  \<open>port.sender.id + port.sender.tab.id\<close> concatenates a string and a number, so the tab
  id is written in decimal. An id therefore ends in a digit and is never one of the
  inherited names (\<open>app_id_not_inherited\<close> below), and neither is a key of
  \<open>tabChannels\<close>, which is a tab id in decimal.
\<close>

fun string_of_nat :: "nat \<Rightarrow> string" where
  "string_of_nat n =
     (if n < 10 then [''0123456789'' ! n]
      else string_of_nat (n div 10) @ [''0123456789'' ! (n mod 10)])"

declare string_of_nat.simps [simp del]

definition app_id :: "port \<Rightarrow> string" where
  "app_id p = sender_id p @ string_of_nat (tab_id p)"

text \<open>That \<open>connected\<close> files every port under its own id.\<close>

abbreviation connected_by_id :: "broker \<Rightarrow> bool" where
  "connected_by_id s \<equiv> \<forall>l q. connected s l = Some q \<longrightarrow> app_id q = l"

text \<open>That every id in a channel's listener array is the id of a connected port.\<close>

abbreviation listeners_connected :: "broker \<Rightarrow> bool" where
  "listeners_connected s \<equiv>
     \<forall>ch ls l. contextListeners s ch = Some ls \<longrightarrow> l \<in> set ls \<longrightarrow> (\<exists>p. connected s l = Some p)"

text \<open>
  \<open>connected[id].channel ? connected[id].channel : "default"\<close>: an unset channel and
  the empty string are both falsy.
\<close>

definition channel_or_default :: "broker \<Rightarrow> port \<Rightarrow> string" where
  "channel_or_default s p =
     (case port_channel s (pid p) of
        None \<Rightarrow> ''default''
      | Some ch \<Rightarrow> if ch = [] then ''default'' else ch)"

text \<open>
  The state the module starts in: \<open>contexts\<close> and \<open>contextListeners\<close> hold an empty
  array for \<open>default\<close> and for every imported channel; the directory is not loaded.
  (The imported channel ids are taken to be other than \<open>__proto__\<close>, under which an
  assignment stores no property.)
\<close>

definition init :: "channel list \<Rightarrow> broker" where
  "init channels =
     \<lparr>directory = None,
      connected = Map.empty,
      contexts = (\<lambda>k. if k = ''default'' \<or> k \<in> set (map chan_id channels) then Some [] else None),
      tabChannels = Map.empty,
      contextListeners =
        (\<lambda>k. if k = ''default'' \<or> k \<in> set (map chan_id channels) then Some [] else None),
      intentListeners = Map.empty,
      port_channel = Map.empty,
      port_directoryData = Map.empty\<rparr>"

section \<open>Connect\<close>

text \<open>The callback of the directory fetch: \<open>directory = data\<close>.\<close>

definition directory_loaded :: "entry list \<Rightarrow> broker \<Rightarrow> broker" where
  "directory_loaded data s = s\<lparr>directory := Some data\<rparr>"

text \<open>
  \<open>directory.find\<close> with the origin test of onConnect. \<open>new URL(x).origin\<close> belongs to
  the platform; it is the parameter \<open>origin\<close>, which returns nothing where \<open>new URL\<close>
  throws.
\<close>

fun find_entry :: "(string \<Rightarrow> string option) \<Rightarrow> string \<Rightarrow> entry list \<Rightarrow> error + entry option" where
  "find_entry origin app_origin [] = Inr None"
| "find_entry origin app_origin (ent # ents) =
     (case start_url ent of
        None \<Rightarrow> find_entry origin app_origin ents
      | Some u \<Rightarrow>
          if u = [] then find_entry origin app_origin ents
          else (case origin u of
                  None \<Rightarrow> Inl TypeError
                | Some ent_origin \<Rightarrow>
                    if app_origin = ent_origin then Inr (Some ent)
                    else find_entry origin app_origin ents))"

text \<open>
  onConnect. A port whose origin matches no entry is told nothing and gets no
  \<open>directoryData\<close>; it is filed in \<open>connected\<close> and handles messages like any other.
  When the matched entry names a manifest, \<open>directoryData\<close> is set only once the
  manifest has arrived (\<open>onConnect_fetched\<close>). The handlers for messages and for the
  disconnect are installed last, so they exist only for ports that found the directory
  loaded. (\<open>entry.manifestContent\<close>, which the continuation also sets, is read nowhere
  in the script and is left out of \<open>entry\<close>.)
\<close>

definition onConnect :: "(string \<Rightarrow> string option) \<Rightarrow> port \<Rightarrow> broker \<Rightarrow> result" where
  "onConnect origin port s =
     (case origin (sender_url port) of
        None \<Rightarrow> Result (Some TypeError) s []
      | Some app_origin \<Rightarrow>
          (case directory s of
             None \<Rightarrow> Result (Some TypeError) s []
           | Some entries \<Rightarrow>
               (case find_entry origin app_origin entries of
                  Inl x \<Rightarrow> Result (Some x) s []
                | Inr found \<Rightarrow>
                    let currentChannel = tabChannels s (string_of_nat (tab_id port)) in
                    (case found of
                       None \<Rightarrow> Result None (s\<lparr>connected := (connected s)(app_id port \<mapsto> port)\<rparr>) []
                     | Some e \<Rightarrow>
                         (case manifest e of
                            None \<Rightarrow>
                              Result None
                                (s\<lparr>port_directoryData := (port_directoryData s)(pid port \<mapsto> e),
                                   connected := (connected s)(app_id port \<mapsto> port)\<rparr>)
                                [PostMessage port
                                   (Message ''environmentData''
                                      (EnvironmentData e currentChannel (tab_id port)))]
                          | Some m \<Rightarrow>
                              if m = [] then
                                Result None
                                  (s\<lparr>port_directoryData := (port_directoryData s)(pid port \<mapsto> e),
                                     connected := (connected s)(app_id port \<mapsto> port)\<rparr>)
                                  [PostMessage port
                                     (Message ''environmentData''
                                        (EnvironmentData e currentChannel (tab_id port)))]
                              else
                                Result None (s\<lparr>connected := (connected s)(app_id port \<mapsto> port)\<rparr>)
                                  [FetchOnConnect m port e currentChannel])))))"

definition onConnect_fetched :: "port \<Rightarrow> entry \<Rightarrow> string option \<Rightarrow> broker \<Rightarrow> result" where
  "onConnect_fetched port e currentChannel s =
     Result None (s\<lparr>port_directoryData := (port_directoryData s)(pid port \<mapsto> e)\<rparr>)
       [PostMessage port (Message ''environmentData'' (EnvironmentData e currentChannel (tab_id port)))]"

section \<open>Disconnect\<close>

text \<open>
  \<open>connected[id] = null\<close>; every channel's listener array is filtered by id, every
  intent's listener array by tab id. (Reading a property of \<open>null\<close> throws just as for a
  missing key, so \<open>null\<close> is the absent key here.)
\<close>

definition onDisconnect :: "port \<Rightarrow> broker \<Rightarrow> broker" where
  "onDisconnect port s =
     s\<lparr>connected := (connected s)(app_id port := None),
       contextListeners :=
         (\<lambda>channel. map_option (filter (\<lambda>item. item \<noteq> app_id port)) (contextListeners s channel)),
       intentListeners :=
         (\<lambda>key. map_option (filter (\<lambda>item. tab_id item \<noteq> tab_id port)) (intentListeners s key))\<rparr>"

section \<open>Channels\<close>

definition addContextListener :: "port \<Rightarrow> broker \<Rightarrow> result" where
  "addContextListener port s =
     (case connected s (app_id port) of
        None \<Rightarrow> Result (Some TypeError) s []
      | Some c \<Rightarrow>
          let channel = channel_or_default s c in
          (case contextListeners s channel of
             None \<Rightarrow> Result (Some TypeError) s []
           | Some ls \<Rightarrow>
               Result None
                 (s\<lparr>contextListeners := (contextListeners s)(channel \<mapsto> ls @ [app_id port])\<rparr>) []))"

text \<open>
  \<open>contextListeners[channel].forEach(l => connected[l].postMessage(...))\<close>: the loop
  stops at the first listener that is not connected; what was posted before stays
  posted.
\<close>

fun post_all :: "broker \<Rightarrow> message \<Rightarrow> string list \<Rightarrow> error option \<times> effect list" where
  "post_all s m [] = (None, [])"
| "post_all s m (l # ls) =
     (case connected s l of
        None \<Rightarrow> (Some TypeError, [])
      | Some p \<Rightarrow> (case post_all s m ls of (e, posted) \<Rightarrow> (e, PostMessage p m # posted)))"

definition broadcast :: "port \<Rightarrow> fdc3_context \<Rightarrow> broker \<Rightarrow> result" where
  "broadcast port ctx s =
     (case connected s (app_id port) of
        None \<Rightarrow> Result (Some TypeError) s []
      | Some c \<Rightarrow>
          let channel = channel_or_default s c in
          (case contexts s channel of
             None \<Rightarrow> Result (Some TypeError) s []
           | Some history \<Rightarrow>
               let s1 = s\<lparr>contexts := (contexts s)(channel \<mapsto> ctx # history)\<rparr> in
               (case contextListeners s1 channel of
                  None \<Rightarrow> Result (Some TypeError) s1 []
                | Some ls \<Rightarrow>
                    (case post_all s1 (Message ''context'' (ContextData (Some ctx))) ls of
                       (e, posted) \<Rightarrow> Result e s1 posted))))"

text \<open>
  joinChannel. The message carries \<open>{channel, restoreOnly}\<close>; the handler reads
  \<open>channel\<close> only. The listener array of an unknown channel is created
  (\<open>if (!contextListeners[chan]) contextListeners[chan] = []\<close>; under an inherited name
  the test finds something, nothing is created and \<open>push\<close> throws, after the previous
  channel's array has been filtered). Then the badge colour is looked up in the imported
  \<open>channels\<close>: \<open>selectedChannel.visualIdentity\<close> throws when \<open>find\<close> returned
  nothing. Last, \<open>contexts[chan][0]\<close> throws when nothing is found under \<open>chan\<close>, and
  is \<open>undefined\<close> for what an inherited name finds.
\<close>

definition joinChannel :: "channel list \<Rightarrow> port \<Rightarrow> string \<Rightarrow> bool \<Rightarrow> broker \<Rightarrow> result" where
  "joinChannel channels port chan restoreOnly s =
     (let own_id = app_id port in
      case connected s own_id of
        None \<Rightarrow> Result (Some TypeError) s []
      | Some c \<Rightarrow>
          let prevChan = channel_or_default s c in
          (case contextListeners s prevChan of
             None \<Rightarrow> Result (Some TypeError) s []
           | Some prev \<Rightarrow>
               let s1 = s\<lparr>contextListeners :=
                           (contextListeners s)(prevChan \<mapsto> filter (\<lambda>i. i \<noteq> own_id) prev)\<rparr>
               in
               (case (case get_property (contextListeners s1) chan of
                        Inherited \<Rightarrow> None
                      | Missing \<Rightarrow> Some []
                      | Own ls \<Rightarrow> Some ls) of
                  None \<Rightarrow> Result (Some TypeError) s1 []
                | Some target \<Rightarrow>
                    let s2 = s1\<lparr>contextListeners := (contextListeners s1)(chan \<mapsto> target @ [own_id]),
                                port_channel := (port_channel s1)(pid c \<mapsto> chan),
                                tabChannels := (tabChannels s1)(string_of_nat (tab_id port) \<mapsto> chan)\<rparr>;
                        badge = SetBadgeText ''+'' (tab_id port)
                    in
                    (case find (\<lambda>ch. chan_id ch = chan) channels of
                       None \<Rightarrow> Result (Some TypeError) s2 [badge]
                     | Some selectedChannel \<Rightarrow>
                         let colour = SetBadgeBackgroundColor (color selectedChannel) (tab_id port) in
                         (case (case get_property (contexts s2) chan of
                                  Missing \<Rightarrow> None
                                | Inherited \<Rightarrow> Some None
                                | Own history \<Rightarrow>
                                    Some (case history of [] \<Rightarrow> None | x # _ \<Rightarrow> Some x)) of
                            None \<Rightarrow> Result (Some TypeError) s2 [badge, colour]
                          | Some current \<Rightarrow>
                              Result None s2
                                [badge, colour,
                                 PostMessage port (Message ''context'' (ContextData current))])))))"

section \<open>Intents: listeners and candidates\<close>

text \<open>
  addIntentListener: \<open>if (!intentListeners[name]) intentListeners[name] = []\<close>, then
  \<open>push\<close>. Under an inherited name the test finds something, no array is stored, and
  \<open>push\<close> throws.
\<close>

definition addIntentListener :: "port \<Rightarrow> string \<Rightarrow> broker \<Rightarrow> result" where
  "addIntentListener port intent_name s =
     (case get_property (intentListeners s) intent_name of
        Inherited \<Rightarrow> Result (Some TypeError) s []
      | Missing \<Rightarrow>
          Result None (s\<lparr>intentListeners := (intentListeners s)(intent_name \<mapsto> [port])\<rparr>) []
      | Own ls \<Rightarrow>
          Result None (s\<lparr>intentListeners := (intentListeners s)(intent_name \<mapsto> ls @ [port])\<rparr>) [])"

text \<open>
  \<open>list.find(app => app.directoryData.name === entry.name)\<close>. A port that matched no
  directory entry when it connected has no \<open>directoryData\<close>, and reading \<open>.name\<close> of it
  throws.
\<close>

fun find_registered :: "broker \<Rightarrow> entry \<Rightarrow> port list \<Rightarrow> error + port option" where
  "find_registered s e [] = Inr None"
| "find_registered s e (app # apps) =
     (case port_directoryData s (pid app) of
        None \<Rightarrow> Inl TypeError
      | Some d \<Rightarrow> if name d = name e then Inr (Some app) else find_registered s e apps)"

text \<open>
  The body of \<open>directory.forEach\<close>, with \<open>r\<close> as the list built so far. \<open>list\<close> is
  \<open>intentListeners[msg.data.intent]\<close>; \<open>!list\<close> holds only when nothing is found, and
  \<open>list.find\<close> throws on what an inherited name finds.
\<close>

fun directory_candidates ::
  "broker \<Rightarrow> string \<Rightarrow> entry list \<Rightarrow> candidate list \<Rightarrow> error + candidate list" where
  "directory_candidates s intent_name [] r = Inr r"
| "directory_candidates s intent_name (e # es) r =
     (case intents e of
        None \<Rightarrow> directory_candidates s intent_name es r
      | Some ints \<Rightarrow>
          if 0 < length (filter (\<lambda>int. decl_name int = intent_name) ints) then
            (case get_property (intentListeners s) intent_name of
               Missing \<Rightarrow> directory_candidates s intent_name es (r @ [Directory e])
             | Inherited \<Rightarrow> Inl TypeError
             | Own list \<Rightarrow>
                 (case find_registered s e list of
                    Inl x \<Rightarrow> Inl x
                  | Inr None \<Rightarrow> directory_candidates s intent_name es (r @ [Directory e])
                  | Inr (Some app) \<Rightarrow> directory_candidates s intent_name es r))
          else directory_candidates s intent_name es r)"

text \<open>
  The list \<open>r\<close> of raiseIntent: the listeners first
  (\<open>if (intentListeners[intent]) intentListeners[intent].forEach(...)\<close>, which throws at
  \<open>forEach\<close> under an inherited name), then the pass over the directory.
\<close>

definition candidates :: "broker \<Rightarrow> string \<Rightarrow> error + candidate list" where
  "candidates s intent_name =
     (case get_property (intentListeners s) intent_name of
        Inherited \<Rightarrow> Inl TypeError
      | Missing \<Rightarrow>
          (case directory s of
             None \<Rightarrow> Inl TypeError
           | Some entries \<Rightarrow> directory_candidates s intent_name entries [])
      | Own ls \<Rightarrow>
          (case directory s of
             None \<Rightarrow> Inl TypeError
           | Some entries \<Rightarrow> directory_candidates s intent_name entries (map Window ls)))"

text \<open>
  The test raiseIntent applies to a directory entry:
  \<open>entry.intents && entry.intents.filter(int => int.name === intent).length > 0\<close>.
\<close>

definition declares :: "entry \<Rightarrow> string \<Rightarrow> bool" where
  "declares e intent_name =
     (case intents e of
        None \<Rightarrow> False
      | Some ints \<Rightarrow> 0 < length (filter (\<lambda>int. decl_name int = intent_name) ints))"

text \<open>
  raiseIntent, up to the point where it hands over to a fetch or to the resolver. The
  branch for an empty list is empty in the source (it holds only the comment
  ``show message indicating no handler for the intent'').
\<close>

definition raiseIntent :: "port \<Rightarrow> string \<Rightarrow> fdc3_context \<Rightarrow> broker \<Rightarrow> result" where
  "raiseIntent port intent_name ctx s =
     (case candidates s intent_name of
        Inl x \<Rightarrow> Result (Some x) s []
      | Inr r \<Rightarrow>
          if 0 < length r then
            (if length r = 1 then
               (case r ! 0 of
                  Window win \<Rightarrow>
                    Result None s [PostMessage win (Message ''intent'' (IntentData intent_name ctx))]
                | Directory e \<Rightarrow>
                    Result None s [Fetch (manifest e) (LaunchRaised intent_name ctx)])
             else Result None s [ShowResolver r intent_name ctx])
          else Result None s [])"

text \<open>
  resolveIntent. \<open>msg.selected\<close> is one of the candidates the resolver was given. In the
  window branch \<open>winList\<close> is \<open>intentListeners[msg.intent]\<close>, or the empty array when
  nothing is found there; under an inherited name it is no array, and \<open>winList.find\<close>
  throws. The port found is sent the intent and then \<open>win.focus()\<close> is called on
  it; a port has no such method, so the handler ends with a TypeError after the message
  has been posted.
\<close>

definition resolveIntent :: "port \<Rightarrow> candidate \<Rightarrow> string \<Rightarrow> fdc3_context \<Rightarrow> broker \<Rightarrow> result" where
  "resolveIntent port selected intent_name ctx s =
     (case selected of
        Window details \<Rightarrow>
          (case (case get_property (intentListeners s) intent_name of
                   Inherited \<Rightarrow> None
                 | Missing \<Rightarrow> Some []
                 | Own ls \<Rightarrow> Some ls) of
             None \<Rightarrow> Result (Some TypeError) s []
           | Some winList \<Rightarrow>
               (case find (\<lambda>item. tab_id item = tab_id details) winList of
                  None \<Rightarrow> Result None s []
                | Some win \<Rightarrow>
                    Result (Some TypeError) s
                      [PostMessage win (Message ''intent'' (IntentData intent_name ctx))]))
      | Directory details \<Rightarrow>
          Result None s [Fetch (manifest details) (LaunchResolved details intent_name ctx)])"

section \<open>Manifests and launch URLs\<close>

text \<open>
  A fetched manifest: \<open>{start_url, intents: [{intent, type, template}], templates,
  params: {name: {type, key | id}}}\<close>. \<open>templates\<close> and \<open>params\<close> are objects whose keys
  are listed in insertion order by \<open>Object.keys\<close> (the names are not array indices).
\<close>

record manifest_intent =
  intent :: string
  itype :: "string option"
  template :: string

record param =
  param_type :: string
  param_key :: "string option"
  param_id :: "string option"

record manifestContent =
  m_start_url :: "string option"
  m_intents :: "manifest_intent list option"
  templates :: "(string \<times> string) list option"
  params :: "(string \<times> param) list option"

text \<open>
  The values a property read can give here: \<open>undefined\<close>, a string, an object that is
  not a function, and a built-in function (by its name).
\<close>

datatype jsvalue = Undefined | Str string | Obj | Native string

definition to_string :: "jsvalue \<Rightarrow> string" where
  "to_string v =
     (case v of
        Undefined \<Rightarrow> ''undefined''
      | Str x \<Rightarrow> x
      | Obj \<Rightarrow> ''[object Object]''
      | Native f \<Rightarrow> ''function '' @ f @ ''() { [native code] }'')"

text \<open>
  What \<open>Object.prototype\<close> supplies under one of its names: \<open>Object.prototype\<close> itself
  for \<open>__proto__\<close>, the function \<open>Object\<close> for \<open>constructor\<close>, and otherwise the
  method of that name.
\<close>

definition prototype_value :: "string \<Rightarrow> jsvalue" where
  "prototype_value k =
     (if k = ''__proto__'' then Obj
      else if k = ''constructor'' then Native ''Object''
      else Native k)"

text \<open>\<open>obj[k]\<close> for an object whose own properties are strings.\<close>

definition read_property :: "(string \<times> string) list \<Rightarrow> string \<Rightarrow> jsvalue" where
  "read_property own k =
     (case map_of own k of
        Some v \<Rightarrow> Str v
      | None \<Rightarrow> if inherited k then prototype_value k else Undefined)"

text \<open>\<open>ctx[k]\<close>.\<close>

definition ctx_get :: "fdc3_context \<Rightarrow> string \<Rightarrow> jsvalue" where
  "ctx_get ctx k =
     (if k = ''type'' then Str (ctype ctx)
      else if k = ''id'' then (case cid ctx of None \<Rightarrow> Undefined | Some ids \<Rightarrow> Obj)
      else read_property (cfields ctx) k)"

text \<open>A property that is missing or the empty string is falsy.\<close>

definition truthy :: "string option \<Rightarrow> string option" where
  "truthy x = (case x of None \<Rightarrow> None | Some k \<Rightarrow> if k = [] then None else Some k)"

text \<open>
  \<open>params[key] = v\<close> on the local \<open>params\<close> object. Under \<open>__proto__\<close> the assignment
  stores no property, so \<open>Object.keys(params)\<close> does not list it.
\<close>

definition assign ::
  "string \<Rightarrow> jsvalue \<Rightarrow> (string \<times> jsvalue) list \<Rightarrow> (string \<times> jsvalue) list" where
  "assign key v ps = (if key = ''__proto__'' then ps else AList.update key v ps)"

text \<open>
  The loop over \<open>Object.keys(params)\<close> of the manifest that fills the local \<open>params\<close>
  object; \<open>ctx.id[param.id]\<close> throws when the context has no \<open>id\<close>.
\<close>

fun set_params ::
  "fdc3_context \<Rightarrow> (string \<times> param) list \<Rightarrow> (string \<times> jsvalue) list \<Rightarrow>
   error + (string \<times> jsvalue) list" where
  "set_params ctx [] acc = Inr acc"
| "set_params ctx ((key, p) # rest) acc =
     (if ctype ctx = param_type p then
        (case truthy (param_key p) of
           Some k \<Rightarrow> set_params ctx rest (assign key (ctx_get ctx k) acc)
         | None \<Rightarrow>
             (case truthy (param_id p) of
                Some i \<Rightarrow>
                  (case cid ctx of
                     None \<Rightarrow> Inl TypeError
                   | Some ids \<Rightarrow>
                       set_params ctx rest (assign key (read_property ids i) acc))
              | None \<Rightarrow> set_params ctx rest acc))
      else set_params ctx rest acc)"

text \<open>
  \<open>String.prototype.replace\<close> with a string pattern: only the first occurrence of the
  pattern is replaced, and in the replacement text \<open>$$\<close>, \<open>$&\<close>, \<open>$`\<close> and \<open>$'\<close> stand
  for a dollar sign, the matched text, the text before the match and the text after it
  (there are no capture groups, so \<open>$1\<close> is literal).
\<close>

fun split_first :: "string \<Rightarrow> string \<Rightarrow> (string \<times> string) option" where
  "split_first pat [] = (if pat = [] then Some ([], []) else None)"
| "split_first pat (c # cs) =
     (if prefix pat (c # cs) then Some ([], drop (length pat) (c # cs))
      else (case split_first pat cs of
              None \<Rightarrow> None
            | Some (pre, post) \<Rightarrow> Some (c # pre, post)))"

fun get_substitution :: "string \<Rightarrow> string \<Rightarrow> string \<Rightarrow> string \<Rightarrow> string" where
  "get_substitution matched pre post [] = []"
| "get_substitution matched pre post [c] = [c]"
| "get_substitution matched pre post (c # d # rest) =
     (if c = CHR ''$'' then
        (if d = CHR ''$'' then CHR ''$'' # get_substitution matched pre post rest
         else if d = CHR ''&'' then matched @ get_substitution matched pre post rest
         else if d = CHR 0x60 then pre @ get_substitution matched pre post rest
         else if d = CHR 0x27 then post @ get_substitution matched pre post rest
         else c # get_substitution matched pre post (d # rest))
      else c # get_substitution matched pre post (d # rest))"

definition js_replace :: "string \<Rightarrow> string \<Rightarrow> string \<Rightarrow> string" where
  "js_replace str pat replacement =
     (case split_first pat str of
        None \<Rightarrow> str
      | Some (pre, post) \<Rightarrow> pre @ get_substitution pat pre post replacement @ post)"

text \<open>
  \<open>replace\<close> with a built-in function as the replacement calls it, once the pattern
  has been found, with the matched text as first argument and no \<open>this\<close>, and puts in
  what it returns: \<open>Object\<close> returns the matched text (wrapped), \<open>toString\<close> returns
  \<open>[object Undefined]\<close>, \<open>isPrototypeOf\<close> returns \<open>false\<close>, and the other methods
  throw for want of a \<open>this\<close>.
\<close>

definition native_call :: "string \<Rightarrow> string \<Rightarrow> error + string" where
  "native_call f matched =
     (if f = ''Object'' then Inr matched
      else if f = ''toString'' then Inr ''[object Undefined]''
      else if f = ''isPrototypeOf'' then Inr ''false''
      else Inl TypeError)"

definition replace_with :: "string \<Rightarrow> string \<Rightarrow> jsvalue \<Rightarrow> error + string" where
  "replace_with str pat v =
     (case v of
        Native f \<Rightarrow>
          (case split_first pat str of
             None \<Rightarrow> Inr str
           | Some (pre, post) \<Rightarrow>
               (case native_call f pat of
                  Inl x \<Rightarrow> Inl x
                | Inr r \<Rightarrow> Inr (pre @ r @ post)))
      | Undefined \<Rightarrow> Inr (js_replace str pat (to_string v))
      | Str x \<Rightarrow> Inr (js_replace str pat (to_string v))
      | Obj \<Rightarrow> Inr (js_replace str pat (to_string v)))"

text \<open>\<open>Object.keys(params).forEach(key => template = template.replace("${" + key + "}", params[key]))\<close>\<close>

fun substitute :: "string \<Rightarrow> (string \<times> jsvalue) list \<Rightarrow> error + string" where
  "substitute tmpl [] = Inr tmpl"
| "substitute tmpl ((key, v) # rest) =
     (case replace_with tmpl (''${'' @ key @ ''}'') v of
        Inl x \<Rightarrow> Inl x
      | Inr replaced \<Rightarrow> substitute replaced rest)"

text \<open>
  \<open>let template = mD.templates[intentData.template]\<close> followed by the loop: a missing
  \<open>intentData\<close> or \<open>templates\<close> throws at once. A template that is missing, or is what
  an inherited name finds, has no \<open>replace\<close> and throws at the first round of the loop,
  if there is one; with no round, it is the URL as it stands.
\<close>

definition eval_url ::
  "manifestContent \<Rightarrow> manifest_intent option \<Rightarrow> (string \<times> jsvalue) list \<Rightarrow> error + string option" where
  "eval_url mD intentData ps =
     (case templates mD of
        None \<Rightarrow> Inl TypeError
      | Some ts \<Rightarrow>
          (case intentData of
             None \<Rightarrow> Inl TypeError
           | Some d \<Rightarrow>
               (case read_property ts (template d) of
                  Str tmpl \<Rightarrow>
                    (case substitute tmpl ps of Inl x \<Rightarrow> Inl x | Inr url \<Rightarrow> Inr (Some url))
                | Undefined \<Rightarrow> if ps = [] then Inr None else Inl TypeError
                | Obj \<Rightarrow> if ps = [] then Inr (Some (to_string Obj)) else Inl TypeError
                | Native f \<Rightarrow>
                    if ps = [] then Inr (Some (to_string (Native f))) else Inl TypeError)))"

text \<open>
  The continuation of resolveIntent's fetch, for a selection from the directory.
\<close>

definition resolveIntent_launch ::
  "manifestContent \<Rightarrow> entry \<Rightarrow> string \<Rightarrow> fdc3_context \<Rightarrow> error + effect list" where
  "resolveIntent_launch mD details intent_name ctx =
     (case m_intents mD of
        None \<Rightarrow> Inr [WindowOpen (m_start_url mD) (Some (name details)), WindowFocus]
      | Some ints \<Rightarrow>
          let intentData =
                find (\<lambda>i. case truthy (itype i) of
                             Some ty \<Rightarrow> ty = ctype ctx \<and> intent i = intent_name
                           | None \<Rightarrow> intent i = intent_name) ints
          in
          (case params mD of
             None \<Rightarrow> Inl TypeError
           | Some mparams \<Rightarrow>
               (case set_params ctx mparams [] of
                  Inl x \<Rightarrow> Inl x
                | Inr ps \<Rightarrow>
                    (case eval_url mD intentData ps of
                       Inl x \<Rightarrow> Inl x
                     | Inr url \<Rightarrow> Inr [WindowOpen url (Some (name details)), WindowFocus]))))"

text \<open>
  The continuation of raiseIntent's fetch, for a single candidate from the directory.
  It reads the parameters from \<open>contentManifest.params\<close>, not from the fetched \<open>mD\<close>.
  background.js neither declares nor imports an identifier \<open>contentManifest\<close>, so the
  read throws a ReferenceError. The window is named \<open>msg.data.name\<close>, which a
  raiseIntent message does not carry.
\<close>

definition contentManifest :: "manifestContent option" where
  "contentManifest = None"

definition raiseIntent_launch ::
  "manifestContent \<Rightarrow> string \<Rightarrow> fdc3_context \<Rightarrow> error + effect list" where
  "raiseIntent_launch mD intent_name ctx =
     (case m_intents mD of
        None \<Rightarrow> Inl TypeError
      | Some ints \<Rightarrow>
          let intentData = find (\<lambda>i. itype i = Some (ctype ctx) \<and> intent i = intent_name) ints in
          (case contentManifest of
             None \<Rightarrow> Inl ReferenceError
           | Some cm \<Rightarrow>
               (case params cm of
                  None \<Rightarrow> Inl TypeError
                | Some mparams \<Rightarrow>
                    (case set_params ctx mparams [] of
                       Inl x \<Rightarrow> Inl x
                     | Inr ps \<Rightarrow>
                         (case eval_url mD intentData ps of
                            Inl x \<Rightarrow> Inl x
                          | Inr url \<Rightarrow> Inr [WindowOpen url None, WindowFocus])))))"

definition on_fetched :: "continuation \<Rightarrow> manifestContent \<Rightarrow> error + effect list" where
  "on_fetched k mD =
     (case k of
        OpenApp app_name \<Rightarrow> Inr [WindowOpen (m_start_url mD) (Some app_name), WindowFocus]
      | LaunchRaised intent_name ctx \<Rightarrow> raiseIntent_launch mD intent_name ctx
      | LaunchResolved details intent_name ctx \<Rightarrow> resolveIntent_launch mD details intent_name ctx)"

section \<open>The message handler\<close>

datatype request =
    Open string
  | AddContextListener
  | AddIntentListener string
  | Broadcast fdc3_context
  | RaiseIntent string fdc3_context
  | ResolveIntent candidate string fdc3_context
  | JoinChannel string bool
  | GetTabTitle nat

definition open_app :: "string \<Rightarrow> broker \<Rightarrow> result" where
  "open_app app_name s =
     (case directory s of
        None \<Rightarrow> Result (Some TypeError) s []
      | Some entries \<Rightarrow>
          (case filter (\<lambda>item. name item = app_name) entries of
             [] \<Rightarrow> Result None s []
           | e # es \<Rightarrow> Result None s [Fetch (manifest e) (OpenApp app_name)]))"

definition onMessage :: "channel list \<Rightarrow> port \<Rightarrow> request \<Rightarrow> broker \<Rightarrow> result" where
  "onMessage channels port msg s =
     (case msg of
        Open app_name \<Rightarrow> open_app app_name s
      | AddContextListener \<Rightarrow> addContextListener port s
      | AddIntentListener intent_name \<Rightarrow> addIntentListener port intent_name s
      | Broadcast ctx \<Rightarrow> broadcast port ctx s
      | RaiseIntent intent_name ctx \<Rightarrow> raiseIntent port intent_name ctx s
      | ResolveIntent selected intent_name ctx \<Rightarrow> resolveIntent port selected intent_name ctx s
      | JoinChannel chan restoreOnly \<Rightarrow> joinChannel channels port chan restoreOnly s
      | GetTabTitle tab \<Rightarrow> Result None s [TabsSendMessage tab ''get-tab-title''])"

section \<open>A small running broker\<close>

text \<open>
  One catalog channel and two ports of tabs 1 and 2, both listening for contexts on the
  default channel and for the intent \<open>ViewChart\<close>. The concrete runs below start here.
\<close>

text \<open>An origin function for the runs: scheme and host of a URL.\<close>

definition url_origin :: "string \<Rightarrow> string option" where
  "url_origin u =
     (case split_first ''://'' u of
        None \<Rightarrow> None
      | Some (scheme, rest) \<Rightarrow> Some (scheme @ ''://'' @ takeWhile (\<lambda>c. c \<noteq> CHR ''/'') rest))"

definition demo_channels :: "channel list" where
  "demo_channels = [\<lparr>chan_id = ''red'', color = ''#ff0000''\<rparr>]"

definition portA :: port where
  "portA = \<lparr>pid = 1, sender_id = ''ext'', tab_id = 1, sender_url = ''https://a.example/app''\<rparr>"

definition portB :: port where
  "portB = \<lparr>pid = 2, sender_id = ''ext'', tab_id = 2, sender_url = ''https://b.example/app''\<rparr>"

definition portC :: port where
  "portC = \<lparr>pid = 9, sender_id = ''ext'', tab_id = 7, sender_url = ''https://c.example/''\<rparr>"

definition demo_ctx :: fdc3_context where
  "demo_ctx = \<lparr>ctype = ''security'', cfields = [(''ticker'', ''MSFT'')], cid = None\<rparr>"

definition demo_state :: broker where
  "demo_state =
     (init demo_channels)
       \<lparr>directory := Some [],
        connected := [''ext1'' \<mapsto> portA, ''ext2'' \<mapsto> portB],
        contextListeners := (contextListeners (init demo_channels))(''default'' \<mapsto> [''ext1'', ''ext2'']),
        intentListeners := [''ViewChart'' \<mapsto> [portA, portB]]\<rparr>"

definition demo_entry :: entry where
  "demo_entry =
     \<lparr>name = ''Charts'', start_url = Some ''https://charts.example/'',
      manifest = Some ''https://charts.example/manifest.json'',
      intents = Some [\<lparr>decl_name = ''ViewChart'', display_name = ''View Chart''\<rparr>]\<rparr>"

definition registered_state :: broker where
  "registered_state =
     demo_state
       \<lparr>directory := Some [demo_entry],
        intentListeners := [''ViewChart'' \<mapsto> [portA]],
        port_directoryData := [1 \<mapsto> demo_entry]\<rparr>"

definition fresh_state :: broker where
  "fresh_state =
     (init demo_channels)
       \<lparr>directory := Some [],
        connected := [''ext1'' \<mapsto> portA, ''ext2'' \<mapsto> portB]\<rparr>"

definition unregistered_state :: broker where
  "unregistered_state = demo_state\<lparr>directory := Some [demo_entry]\<rparr>"

text \<open>The second port has joined \<open>red\<close> and broadcast one context there.\<close>

definition red_history_state :: broker where
  "red_history_state =
     demo_state
       \<lparr>contexts := (contexts demo_state)(''red'' \<mapsto> [demo_ctx]),
        tabChannels := [''2'' \<mapsto> ''red''],
        contextListeners :=
          (contextListeners demo_state)(''default'' \<mapsto> [''ext1''], ''red'' \<mapsto> [''ext2'']),
        port_channel := [2 \<mapsto> ''red'']\<rparr>"

definition directory_only_state :: broker where
  "directory_only_state = fresh_state\<lparr>directory := Some [demo_entry]\<rparr>"

definition demo_manifest :: manifestContent where
  "demo_manifest =
     \<lparr>m_start_url = Some ''app://home'',
      m_intents = Some [\<lparr>intent = ''ViewChart'', itype = Some ''security'', template = ''chart''\<rparr>],
      templates = Some [(''chart'', ''app://open?sym=${symbol}'')],
      params = Some [(''symbol'',
                      \<lparr>param_type = ''security'', param_key = Some ''ticker'', param_id = None\<rparr>)]\<rparr>"

section \<open>Reading the dictionaries\<close>

lemma get_property_own [simp]: "obj k = Some v \<Longrightarrow> get_property obj k = Own v"
  by (simp add: get_property_def)

lemma get_property_Own_iff: "get_property obj k = Own v \<longleftrightarrow> obj k = Some v"
  by (auto simp: get_property_def split: option.splits)

lemma get_property_missing:
  "obj k = None \<Longrightarrow> \<not> inherited k \<Longrightarrow> get_property obj k = Missing"
  by (simp add: get_property_def)

lemma get_property_inherited:
  "obj k = None \<Longrightarrow> inherited k \<Longrightarrow> get_property obj k = Inherited"
  by (simp add: get_property_def)

text \<open>An id ends in a digit; no inherited name does.\<close>

lemma last_string_of_nat: "last (string_of_nat n) \<in> set ''0123456789''"
proof -
  have "string_of_nat n = (if n < 10 then [''0123456789'' ! n]
      else string_of_nat (n div 10) @ [''0123456789'' ! (n mod 10)])"
    by (rule string_of_nat.simps)
  moreover have "\<And>m. m < 10 \<Longrightarrow> ''0123456789'' ! m \<in> set ''0123456789''"
    by (rule nth_mem) simp
  moreover have "n mod 10 < 10" by simp
  ultimately show ?thesis by (cases "n < 10") (simp_all del: set_simps)
qed

lemma string_of_nat_nonempty: "string_of_nat n \<noteq> []"
  by (subst string_of_nat.simps) simp

lemma app_id_not_inherited: "\<not> inherited (app_id p)"
proof
  assume "inherited (app_id p)"
  then have "last (app_id p) \<in> last ` set prototype_names"
    by (auto simp: inherited_def)
  moreover have "last (app_id p) = last (string_of_nat (tab_id p))"
    by (simp add: app_id_def string_of_nat_nonempty)
  ultimately show False
    using last_string_of_nat [of "tab_id p"] by (auto simp: prototype_names_def)
qed

section \<open>Evaluation of the running broker\<close>

lemmas demo_defs = demo_channels_def portA_def portB_def demo_ctx_def demo_state_def init_def
  app_id_def string_of_nat.simps Let_def get_property_def inherited_def prototype_names_def

section \<open>How the running broker comes about\<close>

text \<open>
  \<open>connected_by_id\<close> holds at the start and is kept by every handler: onConnect is the
  only writer of \<open>connected\<close>, and it writes \<open>connected[app_id] = port\<close>.
\<close>

lemma connected_by_id_init: "connected_by_id (init channels)"
  by (simp add: init_def)

lemma connected_by_id_onConnect:
  "connected_by_id s \<Longrightarrow> connected_by_id (st (onConnect origin port s))"
  by (auto simp: onConnect_def Let_def split: option.splits sum.splits if_splits)

lemma connected_by_id_onDisconnect:
  "connected_by_id s \<Longrightarrow> connected_by_id (onDisconnect port s)"
  by (auto simp: onDisconnect_def split: if_splits)

lemma connected_joinChannel:
  "connected (st (joinChannel channels port chan r s)) = connected s"
  by (simp add: joinChannel_def Let_def split: option.splits)

lemma connected_broadcast:
  "connected (st (broadcast port ctx s)) = connected s"
  by (simp add: broadcast_def Let_def split: option.splits prod.splits)

lemma connected_onMessage:
  "connected (st (onMessage channels port msg s)) = connected s"
  by (cases msg)
     (simp_all add: onMessage_def open_app_def addContextListener_def addIntentListener_def
        connected_broadcast connected_joinChannel raiseIntent_def resolveIntent_def Let_def
        split: option.splits sum.splits list.splits candidate.splits property.splits)

text \<open>
  \<open>listeners_connected\<close> holds at the start and is kept by every handler: an id is added
  to a listener array only by a handler that has just read \<open>connected[id]\<close>, and the
  disconnect that clears \<open>connected[id]\<close> removes the id from every array.
\<close>

lemma listeners_connected_init: "listeners_connected (init channels)"
  by (auto simp: init_def split: if_splits)

lemma listeners_connected_onConnect:
  assumes "listeners_connected s"
  shows "listeners_connected (st (onConnect origin port s))"
proof -
  have "st (onConnect origin port s) = s \<or>
        (\<exists>d. st (onConnect origin port s) =
               s\<lparr>port_directoryData := d, connected := (connected s)(app_id port \<mapsto> port)\<rparr>) \<or>
        st (onConnect origin port s) = s\<lparr>connected := (connected s)(app_id port \<mapsto> port)\<rparr>"
    by (auto simp: onConnect_def Let_def split: option.splits sum.splits)
  then show ?thesis using assms by fastforce
qed

lemma listeners_connected_onDisconnect:
  assumes "listeners_connected s"
  shows "listeners_connected (onDisconnect port s)"
proof (intro allI impI)
  fix ch ls l
  assume a: "contextListeners (onDisconnect port s) ch = Some ls" and l: "l \<in> set ls"
  from a obtain ls0 where ls0: "contextListeners s ch = Some ls0"
    "ls = filter (\<lambda>item. item \<noteq> app_id port) ls0"
    by (auto simp: onDisconnect_def)
  with l have "l \<in> set ls0" "l \<noteq> app_id port" by auto
  with ls0(1) assms obtain p where "connected s l = Some p" by blast
  with \<open>l \<noteq> app_id port\<close> show "\<exists>p. connected (onDisconnect port s) l = Some p"
    by (simp add: onDisconnect_def)
qed

lemma listeners_connected_addContextListener:
  assumes "listeners_connected s"
  shows "listeners_connected (st (addContextListener port s))"
proof (cases "connected s (app_id port)")
  case None
  with assms show ?thesis by (simp add: addContextListener_def)
next
  case (Some c)
  show ?thesis
  proof (cases "contextListeners s (channel_or_default s c)")
    case None
    with Some assms show ?thesis by (simp add: addContextListener_def Let_def)
  next
    case (Some ls0)
    with \<open>connected s (app_id port) = Some c\<close> have
      "st (addContextListener port s) =
         s\<lparr>contextListeners := (contextListeners s)(channel_or_default s c \<mapsto> ls0 @ [app_id port])\<rparr>"
      by (simp add: addContextListener_def Let_def)
    with assms Some \<open>connected s (app_id port) = Some c\<close> show ?thesis
      by (auto split: if_splits)
  qed
qed

lemma joinChannel_contextListeners:
  assumes "connected s (app_id port) = Some c"
    and "contextListeners s (channel_or_default s c) = Some prev"
    and "filtered = (contextListeners s)
            (channel_or_default s c \<mapsto> filter (\<lambda>i. i \<noteq> app_id port) prev)"
  shows "contextListeners (st (joinChannel channels port chan r s)) =
     (case get_property filtered chan of
        Inherited \<Rightarrow> filtered
      | Missing \<Rightarrow> filtered(chan \<mapsto> [app_id port])
      | Own ls \<Rightarrow> filtered(chan \<mapsto> ls @ [app_id port]))"
  using assms
  by (simp add: joinChannel_def Let_def split: option.splits property.splits)

lemma listeners_connected_joinChannel:
  assumes "listeners_connected s"
  shows "listeners_connected (st (joinChannel channels port chan r s))"
proof (cases "connected s (app_id port)")
  case None
  with assms show ?thesis by (simp add: joinChannel_def)
next
  case (Some c)
  show ?thesis
  proof (cases "contextListeners s (channel_or_default s c)")
    case None
    with Some assms show ?thesis by (simp add: joinChannel_def Let_def)
  next
    case (Some prev)
    let ?s' = "st (joinChannel channels port chan r s)"
    define filtered where
      "filtered = (contextListeners s)
         (channel_or_default s c \<mapsto> filter (\<lambda>i. i \<noteq> app_id port) prev)"
    have conn: "connected ?s' = connected s"
      by (rule connected_joinChannel)
    note cl = joinChannel_contextListeners
      [OF \<open>connected s (app_id port) = Some c\<close> Some filtered_def, of channels chan r]
    have old: "\<exists>ch1 ls1. contextListeners s ch1 = Some ls1 \<and> l \<in> set ls1"
      if "filtered ch0 = Some ls0" "l \<in> set ls0" for ch0 ls0 l
      using that Some unfolding filtered_def by (fastforce split: if_splits)
    show ?thesis
    proof (intro allI impI)
      fix ch ls l
      assume a: "contextListeners ?s' ch = Some ls" and l: "l \<in> set ls"
      have "l = app_id port \<or> (\<exists>ch0 ls0. filtered ch0 = Some ls0 \<and> l \<in> set ls0)"
      proof (cases "get_property filtered chan")
        case Inherited
        with cl have "contextListeners ?s' = filtered" by simp
        with a l show ?thesis by auto
      next
        case Missing
        with cl have "contextListeners ?s' = filtered(chan \<mapsto> [app_id port])"
          by simp
        with a l show ?thesis by (cases "ch = chan") auto
      next
        case (Own target)
        then have tg: "filtered chan = Some target"
          by (simp only: get_property_Own_iff)
        from Own cl have "contextListeners ?s' = filtered(chan \<mapsto> target @ [app_id port])"
          by simp
        with a l tg show ?thesis by (cases "ch = chan") auto
      qed
      then have "l = app_id port \<or> (\<exists>ch1 ls1. contextListeners s ch1 = Some ls1 \<and> l \<in> set ls1)"
        using old by blast
      then show "\<exists>p. connected ?s' l = Some p"
        using assms \<open>connected s (app_id port) = Some c\<close> unfolding conn by blast
    qed
  qed
qed

lemma contextListeners_broadcast:
  "contextListeners (st (broadcast port ctx s)) = contextListeners s"
  by (simp add: broadcast_def Let_def split: option.splits prod.splits)

lemma listeners_connected_onMessage:
  assumes "listeners_connected s"
  shows "listeners_connected (st (onMessage channels port msg s))"
proof (cases msg)
  case AddContextListener
  with listeners_connected_addContextListener [OF assms] show ?thesis
    by (simp add: onMessage_def)
next
  case (JoinChannel chan r)
  with listeners_connected_joinChannel [OF assms] show ?thesis
    by (simp add: onMessage_def)
next
  case (Broadcast ctx)
  with assms show ?thesis
    by (simp add: onMessage_def contextListeners_broadcast connected_broadcast)
next
  case (Open n)
  with assms show ?thesis
    by (simp add: onMessage_def open_app_def split: option.splits list.splits)
next
  case (AddIntentListener n)
  with assms show ?thesis
    by (simp add: onMessage_def addIntentListener_def split: property.splits)
next
  case (RaiseIntent n c)
  with assms show ?thesis
    by (simp add: onMessage_def raiseIntent_def split: sum.splits candidate.splits)
next
  case (ResolveIntent sel n c)
  with assms show ?thesis
    by (simp add: onMessage_def resolveIntent_def Let_def split: candidate.splits option.splits)
next
  case (GetTabTitle n)
  with assms show ?thesis by (simp add: onMessage_def)
qed

text \<open>
  The states used in the concrete runs are reached from the initial state by loading
  the directory, connecting the two ports (their origins match no entry) and handling
  their messages.
\<close>

lemma url_origin_A: "url_origin ''https://a.example/app'' = Some ''https://a.example''"
  by (simp add: url_origin_def)

lemma url_origin_B: "url_origin ''https://b.example/app'' = Some ''https://b.example''"
  by (simp add: url_origin_def)

lemma url_origin_entry: "url_origin ''https://charts.example/'' = Some ''https://charts.example''"
  by (simp add: url_origin_def)

lemma fresh_state_reached:
  "st (onConnect url_origin portB
        (st (onConnect url_origin portA (directory_loaded [] (init demo_channels))))) = fresh_state"
  by (simp add: onConnect_def url_origin_A url_origin_B directory_loaded_def fresh_state_def
      app_id_def string_of_nat.simps portA_def portB_def init_def)

lemma directory_only_state_reached:
  "st (onConnect url_origin portB
        (st (onConnect url_origin portA (directory_loaded [demo_entry] (init demo_channels))))) =
   directory_only_state"
  by (simp add: onConnect_def url_origin_A url_origin_B url_origin_entry directory_loaded_def
      directory_only_state_def fresh_state_def demo_entry_def
      app_id_def string_of_nat.simps portA_def portB_def init_def)

lemma demo_state_reached:
  "st (onMessage demo_channels portB (AddIntentListener ''ViewChart'')
     (st (onMessage demo_channels portA (AddIntentListener ''ViewChart'')
       (st (onMessage demo_channels portB AddContextListener
         (st (onMessage demo_channels portA AddContextListener fresh_state))))))) = demo_state"
  by (simp add: onMessage_def addContextListener_def addIntentListener_def channel_or_default_def
      fresh_state_def demo_defs)

lemma unregistered_state_reached:
  "st (onMessage demo_channels portB (AddIntentListener ''ViewChart'')
     (st (onMessage demo_channels portA (AddIntentListener ''ViewChart'')
       (st (onMessage demo_channels portB AddContextListener
         (st (onMessage demo_channels portA AddContextListener directory_only_state))))))) =
   unregistered_state"
  by (simp add: onMessage_def addContextListener_def addIntentListener_def channel_or_default_def
      directory_only_state_def unregistered_state_def fresh_state_def demo_defs)

lemma red_history_state_reached:
  "st (onMessage demo_channels portB (Broadcast demo_ctx)
     (st (onMessage demo_channels portB (JoinChannel ''red'' False) demo_state))) =
   red_history_state"
  by (simp add: onMessage_def joinChannel_def broadcast_def channel_or_default_def
      red_history_state_def demo_defs)

section \<open>Where messages can go\<close>

lemma disconnect_contextListeners:
  "contextListeners (onDisconnect p s) ch = Some ls \<Longrightarrow> app_id p \<notin> set ls"
  by (auto simp: onDisconnect_def)

lemma disconnect_intentListeners:
  "intentListeners (onDisconnect p s) k = Some ls \<Longrightarrow> q \<in> set ls \<Longrightarrow> tab_id q \<noteq> tab_id p"
  by (auto simp: onDisconnect_def)

lemma disconnect_connected:
  "connected (onDisconnect p s) l = (if l = app_id p then None else connected s l)"
  by (simp add: onDisconnect_def)

lemma post_all_targets:
  "post_all s m ls = (e, posted) \<Longrightarrow> PostMessage t m' \<in> set posted \<Longrightarrow>
   \<exists>l \<in> set ls. connected s l = Some t"
proof (induction ls arbitrary: e posted)
  case Nil
  then show ?case by simp
next
  case (Cons l ls)
  then show ?case
    by (auto split: option.splits prod.splits)
qed

lemma broadcast_targets:
  assumes "PostMessage t m \<in> set (out (broadcast q ctx s))"
  shows "\<exists>ch ls l. contextListeners s ch = Some ls \<and> l \<in> set ls \<and> connected s l = Some t"
proof -
  from assms obtain c h ls e posted where
    c: "connected s (app_id q) = Some c" and
    ls: "contextListeners s (channel_or_default s c) = Some ls" and
    pa: "post_all (s\<lparr>contexts := (contexts s)(channel_or_default s c \<mapsto> ctx # h)\<rparr>)
           (Message ''context'' (ContextData (Some ctx))) ls = (e, posted)" and
    tm: "PostMessage t m \<in> set posted"
    by (auto simp: broadcast_def Let_def channel_or_default_def split: option.splits prod.splits if_splits)
  from post_all_targets[OF pa tm] obtain l where "l \<in> set ls" "connected s l = Some t"
    by auto
  with ls show ?thesis by blast
qed

lemma directory_candidates_windows:
  "directory_candidates s i es r0 = Inr r \<Longrightarrow> Window w \<in> set r \<Longrightarrow> Window w \<in> set r0"
proof (induction es arbitrary: r0)
  case Nil
  then show ?case by simp
next
  case (Cons e es)
  then show ?case
    by (fastforce split: option.splits sum.splits if_splits property.splits)
qed

lemma candidates_windows:
  assumes "candidates s i = Inr r" "Window w \<in> set r"
  shows "\<exists>ls. intentListeners s i = Some ls \<and> w \<in> set ls"
  using assms
  by (auto simp: candidates_def get_property_def split: option.splits property.splits if_splits
           dest!: directory_candidates_windows)

lemma raiseIntent_targets:
  assumes "PostMessage t m \<in> set (out (raiseIntent q i ctx s))"
  shows "\<exists>ls. intentListeners s i = Some ls \<and> t \<in> set ls"
proof -
  from assms obtain r where r: "candidates s i = Inr r" "length r = 1" "r ! 0 = Window t"
    by (auto simp: raiseIntent_def split: sum.splits if_splits candidate.splits)
  then have "Window t \<in> set r"
    by (metis One_nat_def lessI nth_mem)
  with r(1) show ?thesis by (rule candidates_windows)
qed

section \<open>Disconnect removes the endpoint everywhere\<close>

text \<open>
  C7. After the disconnect handler of a port has run, the port's id is in no channel's
  context-listener array and no port of its tab (so not the port itself) is in any
  intent's listener array; \<open>connected\<close> no longer holds the id. Hence a broadcast that
  follows posts no message to that id (given that \<open>connected\<close> files every port under its
  own id, which is how onConnect fills it), and a raiseIntent that follows neither posts
  to the port nor lists it as a candidate.
\<close>

theorem disconnect_purges_endpoint:
  "(\<forall>ch ls. contextListeners (onDisconnect p s) ch = Some ls \<longrightarrow> app_id p \<notin> set ls) \<and>
   (\<forall>k ls. intentListeners (onDisconnect p s) k = Some ls \<longrightarrow>
      p \<notin> set ls \<and> (\<forall>q \<in> set ls. tab_id q \<noteq> tab_id p)) \<and>
   connected (onDisconnect p s) (app_id p) = None \<and>
   (connected_by_id s \<longrightarrow>
      (\<forall>q ctx t m. PostMessage t m \<in> set (out (broadcast q ctx (onDisconnect p s))) \<longrightarrow>
         app_id t \<noteq> app_id p)) \<and>
   (\<forall>q i ctx t m. PostMessage t m \<in> set (out (raiseIntent q i ctx (onDisconnect p s))) \<longrightarrow>
      tab_id t \<noteq> tab_id p) \<and>
   (\<forall>i r w. candidates (onDisconnect p s) i = Inr r \<longrightarrow> Window w \<in> set r \<longrightarrow>
      tab_id w \<noteq> tab_id p)"
proof (intro conjI allI impI)
  fix ch ls
  assume "contextListeners (onDisconnect p s) ch = Some ls"
  then show "app_id p \<notin> set ls" by (rule disconnect_contextListeners)
next
  fix k ls
  assume "intentListeners (onDisconnect p s) k = Some ls"
  then show "p \<notin> set ls" using disconnect_intentListeners by blast
next
  fix k ls
  assume "intentListeners (onDisconnect p s) k = Some ls"
  then show "\<forall>q \<in> set ls. tab_id q \<noteq> tab_id p" using disconnect_intentListeners by blast
next
  show "connected (onDisconnect p s) (app_id p) = None" by (simp add: disconnect_connected)
next
  fix q ctx t m
  assume wf: "connected_by_id s"
    and "PostMessage t m \<in> set (out (broadcast q ctx (onDisconnect p s)))"
  then obtain l where "connected (onDisconnect p s) l = Some t"
    using broadcast_targets by blast
  then have "l \<noteq> app_id p" "connected s l = Some t"
    by (auto simp: disconnect_connected split: if_splits)
  with wf show "app_id t \<noteq> app_id p" by auto
next
  fix q i ctx t m
  assume "PostMessage t m \<in> set (out (raiseIntent q i ctx (onDisconnect p s)))"
  then obtain ls where "intentListeners (onDisconnect p s) i = Some ls" "t \<in> set ls"
    using raiseIntent_targets by blast
  then show "tab_id t \<noteq> tab_id p" by (rule disconnect_intentListeners)
next
  fix i r w
  assume "candidates (onDisconnect p s) i = Inr r" "Window w \<in> set r"
  then obtain ls where "intentListeners (onDisconnect p s) i = Some ls" "w \<in> set ls"
    using candidates_windows by blast
  then show "tab_id w \<noteq> tab_id p" by (rule disconnect_intentListeners)
qed

theorem disconnect_purges_endpoint_witness:
  "contextListeners (onDisconnect portA demo_state) ''default'' = Some [''ext2''] \<and>
   app_id portA \<notin> set [''ext2''] \<and>
   intentListeners (onDisconnect portA demo_state) ''ViewChart'' = Some [portB] \<and>
   portA \<notin> set [portB] \<and>
   out (broadcast portB demo_ctx (onDisconnect portA demo_state)) =
     [PostMessage portB (Message ''context'' (ContextData (Some demo_ctx)))] \<and>
   app_id portB \<noteq> app_id portA \<and>
   out (raiseIntent portB ''ViewChart'' demo_ctx (onDisconnect portA demo_state)) =
     [PostMessage portB (Message ''intent'' (IntentData ''ViewChart'' demo_ctx))] \<and>
   tab_id portB \<noteq> tab_id portA"
proof -
  note T = disconnect_purges_endpoint [of portA demo_state]
  have cl: "contextListeners (onDisconnect portA demo_state) ''default'' = Some [''ext2'']"
    by (simp add: onDisconnect_def demo_defs)
  have il: "intentListeners (onDisconnect portA demo_state) ''ViewChart'' = Some [portB]"
    by (simp add: onDisconnect_def demo_defs)
  have wf: "connected_by_id demo_state"
    by (auto simp: demo_defs split: if_splits)
  have bc: "out (broadcast portB demo_ctx (onDisconnect portA demo_state)) =
     [PostMessage portB (Message ''context'' (ContextData (Some demo_ctx)))]"
    by (simp add: broadcast_def channel_or_default_def onDisconnect_def demo_defs)
  have ri: "out (raiseIntent portB ''ViewChart'' demo_ctx (onDisconnect portA demo_state)) =
     [PostMessage portB (Message ''intent'' (IntentData ''ViewChart'' demo_ctx))]"
    by (simp add: raiseIntent_def candidates_def onDisconnect_def demo_defs)
  from T cl have 1: "app_id portA \<notin> set [''ext2'']" by blast
  from T il have 2: "portA \<notin> set [portB]" by blast
  from T wf bc have 3: "app_id portB \<noteq> app_id portA" by (metis list.set_intros(1))
  from T ri have 4: "tab_id portB \<noteq> tab_id portA" by (metis list.set_intros(1))
  from cl il bc ri 1 2 3 4 show ?thesis by blast
qed

section \<open>A stale selection\<close>

text \<open>
  resolveIntent with a selected window whose tab has no port among the listeners of the
  intent does nothing, provided the intent has a listener array of its own or its name
  is not an inherited one: no message is posted, no error is raised and the state is
  the one it started from.
\<close>

lemma resolveIntent_stale_window_ordinary_name:
  assumes "intentListeners s i \<noteq> None \<or> \<not> inherited i"
    and "\<forall>w \<in> set (case intentListeners s i of None \<Rightarrow> [] | Some ls \<Rightarrow> ls).
           tab_id w \<noteq> tab_id details"
  shows "resolveIntent port (Window details) i ctx s = Result None s []"
proof (cases "intentListeners s i")
  case None
  with assms(1) have "get_property (intentListeners s) i = Missing"
    by (simp add: get_property_missing)
  then show ?thesis by (simp add: resolveIntent_def)
next
  case (Some ls)
  with assms(2) have "find (\<lambda>item. tab_id item = tab_id details) ls = None"
    by (auto simp: find_None_iff)
  with Some show ?thesis by (simp add: resolveIntent_def)
qed

lemma resolveIntent_stale_window_examples:
  "resolveIntent portA (Window portC) ''ViewChart'' demo_ctx demo_state =
     Result None demo_state [] \<and>
   resolveIntent portA (Window portB) ''ViewNews'' demo_ctx demo_state = Result None demo_state []"
  by (simp add: resolveIntent_def portC_def demo_defs)

text \<open>
  Under an inherited name with no listener array of its own, the window branch throws
  whatever the selection is.
\<close>

lemma resolveIntent_inherited_name:
  assumes "intentListeners s i = None" and "inherited i"
  shows "resolveIntent port (Window details) i ctx s = Result (Some TypeError) s []"
  using assms by (simp add: resolveIntent_def get_property_inherited)

text \<open>
  C10 at a failing input. Nobody has registered for the intent \<open>constructor\<close>, so it
  has no listener array and the selected tab has no listener for it. The lookup
  \<open>intentListeners[msg.intent]\<close> finds the inherited \<open>constructor\<close> of the plain object,
  the fallback to the empty array is not taken, and \<open>winList.find\<close> throws a TypeError:
  an error is raised where the claim has a silent no-op.
\<close>

theorem resolveIntent_inherited_name_throws:
  "intentListeners demo_state ''constructor'' = None \<and>
   resolveIntent portA (Window portC) ''constructor'' demo_ctx demo_state =
     Result (Some TypeError) demo_state []"
  by (simp add: resolveIntent_def portC_def demo_defs)

section \<open>A single live listener\<close>

lemma find_registered_hit:
  "port_directoryData s (pid w) = Some d \<Longrightarrow> name d = name e \<Longrightarrow>
   find_registered s e (w # ws) = Inr (Some w)"
  by simp

lemma directory_candidates_all_suppressed:
  assumes "intentListeners s i = Some (w # ws)"
    and "\<forall>e \<in> set entries.
           (\<exists>ints. intents e = Some ints \<and> (\<exists>d \<in> set ints. decl_name d = i)) \<longrightarrow>
           (\<exists>d. port_directoryData s (pid w) = Some d \<and> name d = name e)"
  shows "directory_candidates s i entries r = Inr r"
  using assms(2)
proof (induction entries)
  case Nil
  then show ?case by simp
next
  case (Cons e es)
  then have IH: "directory_candidates s i es r = Inr r" by simp
  show ?case
  proof (cases "intents e")
    case None
    with IH show ?thesis by simp
  next
    case (Some ints)
    show ?thesis
    proof (cases "0 < length (filter (\<lambda>int. decl_name int = i) ints)")
      case False
      with Some IH show ?thesis by simp
    next
      case True
      then have "\<exists>d \<in> set ints. decl_name d = i"
        by (simp add: filter_empty_conv)
      with Some Cons.prems obtain d where
        "port_directoryData s (pid w) = Some d" "name d = name e"
        by auto
      with Some True IH assms(1) show ?thesis by simp
    qed
  qed
qed

text \<open>
  C6. When exactly one port listens for the intent and every directory entry that
  declares the intent is suppressed by that port's own directory entry of the same name
  (in particular when no entry declares it), raiseIntent posts the intent message, with
  the intent name and the context, to that port and does nothing else: the resolver is
  not shown. The directory has been loaded whenever a message is handled, since
  onConnect reads it before it installs the message handler.
\<close>

theorem single_listener_direct_delivery:
  assumes "intentListeners s i = Some [w]"
    and "directory s = Some entries"
    and "\<forall>e \<in> set entries.
           (\<exists>ints. intents e = Some ints \<and> (\<exists>d \<in> set ints. decl_name d = i)) \<longrightarrow>
           (\<exists>d. port_directoryData s (pid w) = Some d \<and> name d = name e)"
  shows "raiseIntent port i ctx s =
           Result None s [PostMessage w (Message ''intent'' (IntentData i ctx))]"
proof -
  have "candidates s i = Inr [Window w]"
    using assms(1,2) directory_candidates_all_suppressed [OF assms(1) assms(3), of "[Window w]"]
    by (simp add: candidates_def)
  then show ?thesis by (simp add: raiseIntent_def)
qed

theorem single_listener_direct_delivery_witness:
  "intentListeners registered_state ''ViewChart'' = Some [portA] \<and>
   directory registered_state = Some [demo_entry] \<and>
   port_directoryData registered_state (pid portA) = Some demo_entry \<and>
   raiseIntent portB ''ViewChart'' demo_ctx registered_state =
     Result None registered_state
       [PostMessage portA (Message ''intent'' (IntentData ''ViewChart'' demo_ctx))]"
proof -
  have a: "intentListeners registered_state ''ViewChart'' = Some [portA]"
    by (simp add: registered_state_def)
  have b: "directory registered_state = Some [demo_entry]"
    by (simp add: registered_state_def)
  have c: "port_directoryData registered_state (pid portA) = Some demo_entry"
    by (simp add: registered_state_def portA_def)
  have d: "\<forall>e \<in> set [demo_entry].
           (\<exists>ints. intents e = Some ints \<and> (\<exists>d \<in> set ints. decl_name d = ''ViewChart'')) \<longrightarrow>
           (\<exists>d. port_directoryData registered_state (pid portA) = Some d \<and> name d = name e)"
    using c by simp
  from a b c single_listener_direct_delivery [OF a b d, of portB demo_ctx]
  show ?thesis by blast
qed

section \<open>Broadcast\<close>

lemma post_all_connected:
  "\<forall>l \<in> set ls. \<exists>p. connected s l = Some p \<Longrightarrow>
   post_all s m ls = (None, map (\<lambda>l. PostMessage (the (connected s l)) m) ls)"
  by (induction ls) auto

lemma broadcast_result:
  assumes "connected s (app_id port) = Some c"
    and "contexts s (channel_or_default s c) = Some history"
    and "contextListeners s (channel_or_default s c) = Some ls"
    and "\<forall>l \<in> set ls. \<exists>p. connected s l = Some p"
  shows "broadcast port ctx s =
           Result None (s\<lparr>contexts := (contexts s)(channel_or_default s c \<mapsto> ctx # history)\<rparr>)
             (map (\<lambda>l. PostMessage (the (connected s l)) (Message ''context'' (ContextData (Some ctx)))) ls)"
proof -
  let ?ch = "channel_or_default s c"
  let ?s1 = "s\<lparr>contexts := (contexts s)(?ch \<mapsto> ctx # history)\<rparr>"
  have "\<forall>l \<in> set ls. \<exists>p. connected ?s1 l = Some p"
    using assms(4) by simp
  then have "post_all ?s1 (Message ''context'' (ContextData (Some ctx))) ls =
      (None, map (\<lambda>l. PostMessage (the (connected ?s1 l)) (Message ''context'' (ContextData (Some ctx)))) ls)"
    by (rule post_all_connected)
  with assms(1,2,3) show ?thesis
    by (simp add: broadcast_def Let_def)
qed

text \<open>
  C2, as stated, fails: the broadcaster is not left out, and a listener can get the
  message more than once. With both ports listening on the default channel, a broadcast
  by the first port posts the context message to the first port as well; and after the
  first port has added its context listener twice, a broadcast by the second port posts
  the message to the first port twice.
\<close>

theorem broadcast_counterexample:
  "PostMessage portA (Message ''context'' (ContextData (Some demo_ctx)))
     \<in> set (out (broadcast portA demo_ctx demo_state)) \<and>
   out (broadcast portB demo_ctx
          (st (addContextListener portA (st (addContextListener portA fresh_state))))) =
     [PostMessage portA (Message ''context'' (ContextData (Some demo_ctx))),
      PostMessage portA (Message ''context'' (ContextData (Some demo_ctx)))]"
  by (simp add: broadcast_def addContextListener_def channel_or_default_def fresh_state_def
      demo_defs)

text \<open>
  C2, amended. A broadcast by a connected port whose channel has a history array (the
  default channel and the imported channels have one) and whose listeners are all
  connected (\<open>listeners_connected\<close>) raises no error, puts the context at index 0 of that
  history, and posts one context message carrying the broadcast context (and nothing
  else: the broker adds no source) for each entry of the channel's listener array, in
  the array's order, to the port filed under that entry. The broadcaster gets the
  message too when it is listed, and a port listed twice gets it twice.
\<close>

theorem broadcast_reaches_every_listener:
  assumes "connected s (app_id port) = Some c"
    and "contexts s (channel_or_default s c) = Some history"
    and "contextListeners s (channel_or_default s c) = Some ls"
    and "\<forall>l \<in> set ls. \<exists>p. connected s l = Some p"
  shows "err (broadcast port ctx s) = None \<and>
         contexts (st (broadcast port ctx s)) (channel_or_default s c) = Some (ctx # history) \<and>
         out (broadcast port ctx s) =
           map (\<lambda>l. PostMessage (the (connected s l)) (Message ''context'' (ContextData (Some ctx)))) ls"
  using broadcast_result [OF assms, of ctx] by simp

theorem broadcast_reaches_every_listener_witness:
  "connected demo_state (app_id portA) = Some portA \<and>
   contexts demo_state (channel_or_default demo_state portA) = Some [] \<and>
   contextListeners demo_state (channel_or_default demo_state portA) = Some [''ext1'', ''ext2''] \<and>
   err (broadcast portA demo_ctx demo_state) = None \<and>
   contexts (st (broadcast portA demo_ctx demo_state)) (channel_or_default demo_state portA) =
     Some [demo_ctx] \<and>
   out (broadcast portA demo_ctx demo_state) =
     [PostMessage portA (Message ''context'' (ContextData (Some demo_ctx))),
      PostMessage portB (Message ''context'' (ContextData (Some demo_ctx)))]"
proof -
  have a: "connected demo_state (app_id portA) = Some portA"
    by (simp add: demo_defs)
  have b: "contexts demo_state (channel_or_default demo_state portA) = Some []"
    by (simp add: channel_or_default_def demo_defs)
  have c: "contextListeners demo_state (channel_or_default demo_state portA) = Some [''ext1'', ''ext2'']"
    by (simp add: channel_or_default_def demo_defs)
  have d: "\<forall>l \<in> set [''ext1'', ''ext2'']. \<exists>p. connected demo_state l = Some p"
    by (simp add: demo_defs)
  have e: "map (\<lambda>l. PostMessage (the (connected demo_state l)) (Message ''context'' (ContextData (Some demo_ctx))))
             [''ext1'', ''ext2''] =
     [PostMessage portA (Message ''context'' (ContextData (Some demo_ctx))),
      PostMessage portB (Message ''context'' (ContextData (Some demo_ctx)))]"
    by (simp add: demo_defs)
  from a b c e broadcast_reaches_every_listener [OF a b c d, of demo_ctx]
  show ?thesis by simp
qed

section \<open>addContextListener\<close>

lemma addContextListener_result:
  assumes "connected s (app_id port) = Some c"
    and "contextListeners s (channel_or_default s c) = Some ls"
  shows "addContextListener port s =
           Result None
             (s\<lparr>contextListeners :=
                  (contextListeners s)(channel_or_default s c \<mapsto> ls @ [app_id port])\<rparr>) []"
  using assms by (simp add: addContextListener_def Let_def)

text \<open>
  C8, as stated, fails: a second addContextListener changes the listener array of the
  channel (the id is now in it twice), and a later broadcast by the other port posts the
  context message to the port twice.
\<close>

theorem addContextListener_counterexample:
  "contextListeners (st (addContextListener portA (st (addContextListener portA fresh_state))))
     ''default'' \<noteq>
   contextListeners (st (addContextListener portA fresh_state)) ''default'' \<and>
   out (broadcast portB demo_ctx
          (st (addContextListener portA (st (addContextListener portA fresh_state))))) =
     [PostMessage portA (Message ''context'' (ContextData (Some demo_ctx))),
      PostMessage portA (Message ''context'' (ContextData (Some demo_ctx)))]"
  by (simp add: addContextListener_def broadcast_def channel_or_default_def fresh_state_def demo_defs)

text \<open>
  C8, amended. For a connected port whose channel has a listener array,
  addContextListener raises no error and appends the port's id to that array, on every
  call: after a second call the id has been appended twice, and a broadcast that
  follows on that channel (which has a history, and whose listeners are all connected)
  posts the context message to the port once for each of the two entries.
\<close>

theorem addContextListener_appends:
  assumes "connected s (app_id port) = Some c"
    and "contextListeners s (channel_or_default s c) = Some ls"
    and "connected s (app_id q) = Some cq"
    and "channel_or_default s cq = channel_or_default s c"
    and "contexts s (channel_or_default s c) = Some history"
    and "\<forall>l \<in> set ls. \<exists>p. connected s l = Some p"
  shows "err (addContextListener port s) = None \<and>
         contextListeners (st (addContextListener port s)) (channel_or_default s c) =
           Some (ls @ [app_id port]) \<and>
         err (addContextListener port (st (addContextListener port s))) = None \<and>
         contextListeners (st (addContextListener port (st (addContextListener port s))))
           (channel_or_default s c) = Some (ls @ [app_id port, app_id port]) \<and>
         out (broadcast q ctx (st (addContextListener port (st (addContextListener port s))))) =
           map (\<lambda>l. PostMessage (the (connected s l)) (Message ''context'' (ContextData (Some ctx)))) ls @
           [PostMessage c (Message ''context'' (ContextData (Some ctx))),
            PostMessage c (Message ''context'' (ContextData (Some ctx)))]"
proof -
  let ?ch = "channel_or_default s c"
  let ?s1 = "s\<lparr>contextListeners := (contextListeners s)(?ch \<mapsto> ls @ [app_id port])\<rparr>"
  let ?s2 = "s\<lparr>contextListeners := (contextListeners s)(?ch \<mapsto> ls @ [app_id port, app_id port])\<rparr>"
  have one: "addContextListener port s = Result None ?s1 []"
    using assms(1,2) by (rule addContextListener_result)
  have "addContextListener port ?s1 =
          Result None
            (?s1\<lparr>contextListeners :=
                  (contextListeners ?s1)(channel_or_default ?s1 c \<mapsto> (ls @ [app_id port]) @ [app_id port])\<rparr>) []"
    by (rule addContextListener_result) (simp_all add: assms(1) channel_or_default_def)
  then have two: "addContextListener port ?s1 = Result None ?s2 []"
    by (simp add: channel_or_default_def)
  have ch2: "channel_or_default ?s2 cq = ?ch"
    using assms(4) by (simp add: channel_or_default_def)
  have "broadcast q ctx ?s2 =
          Result None (?s2\<lparr>contexts := (contexts ?s2)(channel_or_default ?s2 cq \<mapsto> ctx # history)\<rparr>)
            (map (\<lambda>l. PostMessage (the (connected ?s2 l)) (Message ''context'' (ContextData (Some ctx))))
               (ls @ [app_id port, app_id port]))"
  proof (rule broadcast_result)
    show "connected ?s2 (app_id q) = Some cq" using assms(3) by simp
    show "contexts ?s2 (channel_or_default ?s2 cq) = Some history"
      using assms(5) by (simp add: ch2)
    show "contextListeners ?s2 (channel_or_default ?s2 cq) = Some (ls @ [app_id port, app_id port])"
      by (simp add: ch2)
    show "\<forall>l \<in> set (ls @ [app_id port, app_id port]). \<exists>p. connected ?s2 l = Some p"
      using assms(1,6) by auto
  qed
  then have bc: "out (broadcast q ctx ?s2) =
      map (\<lambda>l. PostMessage (the (connected s l)) (Message ''context'' (ContextData (Some ctx)))) ls @
      [PostMessage c (Message ''context'' (ContextData (Some ctx))),
       PostMessage c (Message ''context'' (ContextData (Some ctx)))]"
    using assms(1) by simp
  from one two bc show ?thesis by simp
qed

theorem addContextListener_appends_witness:
  "connected fresh_state (app_id portA) = Some portA \<and>
   contextListeners fresh_state (channel_or_default fresh_state portA) = Some [] \<and>
   connected fresh_state (app_id portB) = Some portB \<and>
   contexts fresh_state (channel_or_default fresh_state portA) = Some [] \<and>
   contextListeners (st (addContextListener portA (st (addContextListener portA fresh_state))))
     (channel_or_default fresh_state portA) = Some [app_id portA, app_id portA] \<and>
   out (broadcast portB demo_ctx
          (st (addContextListener portA (st (addContextListener portA fresh_state))))) =
     [PostMessage portA (Message ''context'' (ContextData (Some demo_ctx))),
      PostMessage portA (Message ''context'' (ContextData (Some demo_ctx)))]"
proof -
  have a: "connected fresh_state (app_id portA) = Some portA"
    by (simp add: fresh_state_def demo_defs)
  have b: "contextListeners fresh_state (channel_or_default fresh_state portA) = Some []"
    by (simp add: channel_or_default_def fresh_state_def demo_defs)
  have c: "connected fresh_state (app_id portB) = Some portB"
    by (simp add: fresh_state_def demo_defs)
  have d: "channel_or_default fresh_state portB = channel_or_default fresh_state portA"
    by (simp add: channel_or_default_def fresh_state_def demo_defs)
  have e: "contexts fresh_state (channel_or_default fresh_state portA) = Some []"
    by (simp add: channel_or_default_def fresh_state_def demo_defs)
  have f: "\<forall>l \<in> set []. \<exists>p. connected fresh_state l = Some p"
    by simp
  from a b c e addContextListener_appends [OF a b c d e f, of demo_ctx]
  show ?thesis by simp
qed

section \<open>The candidate list\<close>

text \<open>
  What raiseIntent collects when it gets through: the listeners of the intent in the
  order they registered, then the directory entries that declare the intent and whose
  name is not the name of any listener's own directory entry, in directory order. This
  needs every listener to have a directory entry of its own.
\<close>

lemma find_Some_member: "find P xs = Some x \<Longrightarrow> x \<in> set xs \<and> P x"
  by (induction xs) (auto split: if_splits)

lemma find_registered_all:
  "\<forall>w \<in> set ls. \<exists>d. port_directoryData s (pid w) = Some d \<Longrightarrow>
   find_registered s e ls =
     Inr (find (\<lambda>w. map_option name (port_directoryData s (pid w)) = Some (name e)) ls)"
  by (induction ls) auto

lemma directory_candidates_all:
  assumes "intentListeners s i = Some ls"
    and "\<forall>w \<in> set ls. \<exists>d. port_directoryData s (pid w) = Some d"
  shows "directory_candidates s i entries r =
     Inr (r @ map Directory
            (filter (\<lambda>e. declares e i \<and>
                       \<not> (\<exists>w \<in> set ls. map_option name (port_directoryData s (pid w)) = Some (name e)))
               entries))"
proof (induction entries arbitrary: r)
  case Nil
  then show ?case by simp
next
  case (Cons e es)
  have fr: "find_registered s e ls =
     Inr (find (\<lambda>w. map_option name (port_directoryData s (pid w)) = Some (name e)) ls)"
    using assms(2) by (rule find_registered_all)
  show ?case
  proof (cases "declares e i")
    case False
    then show ?thesis
      using Cons.IH by (auto simp: declares_def split: option.splits)
  next
    case True
    then obtain ints where ints: "intents e = Some ints"
      "0 < length (filter (\<lambda>int. decl_name int = i) ints)"
      by (auto simp: declares_def split: option.splits)
    show ?thesis
    proof (cases "find (\<lambda>w. map_option name (port_directoryData s (pid w)) = Some (name e)) ls")
      case None
      then have "\<not> (\<exists>w \<in> set ls. map_option name (port_directoryData s (pid w)) = Some (name e))"
        by (simp add: find_None_iff)
      with None True ints fr assms(1) Cons.IH show ?thesis by simp
    next
      case (Some w)
      then have "\<exists>w \<in> set ls. map_option name (port_directoryData s (pid w)) = Some (name e)"
        using find_Some_member by fastforce
      with Some True ints fr assms(1) Cons.IH show ?thesis by simp
    qed
  qed
qed

lemma directory_candidates_no_listeners:
  assumes "intentListeners s i = None" and "\<not> inherited i"
  shows "directory_candidates s i entries r =
     Inr (r @ map Directory (filter (\<lambda>e. declares e i) entries))"
proof (induction entries arbitrary: r)
  case Nil
  then show ?case by simp
next
  case (Cons e es)
  then show ?case
    using assms by (auto simp: declares_def get_property_missing split: option.splits)
qed

lemma candidates_all_registered:
  assumes "intentListeners s i = Some ls"
    and "directory s = Some entries"
    and "\<forall>w \<in> set ls. \<exists>d. port_directoryData s (pid w) = Some d"
  shows "candidates s i =
     Inr (map Window ls @ map Directory
            (filter (\<lambda>e. declares e i \<and>
                       \<not> (\<exists>w \<in> set ls. map_option name (port_directoryData s (pid w)) = Some (name e)))
               entries))"
  using assms(1,2) directory_candidates_all [OF assms(1) assms(3)]
  by (simp add: candidates_def)

lemma candidates_no_listeners:
  assumes "intentListeners s i = None" and "\<not> inherited i" and "directory s = Some entries"
  shows "candidates s i = Inr (map Directory (filter (\<lambda>e. declares e i) entries))"
  using assms directory_candidates_no_listeners [OF assms(1,2)]
  by (simp add: candidates_def get_property_missing)

lemma addIntentListener_inherited_name:
  assumes "intentListeners s i = None" and "inherited i"
  shows "addIntentListener port i s = Result (Some TypeError) s []"
  using assms by (simp add: addIntentListener_def get_property_inherited)

lemma candidates_inherited_name:
  assumes "intentListeners s i = None" and "inherited i"
  shows "candidates s i = Inl TypeError"
  using assms by (simp add: candidates_def get_property_inherited)

text \<open>
  C1 at a failing input. Two ports listen for \<open>ViewChart\<close>; neither matched a directory
  entry when it connected, so neither has \<open>directoryData\<close>. The directory holds one
  entry that declares \<open>ViewChart\<close>. The duplicate check reads \<open>app.directoryData.name\<close>
  of the first listener and throws: no candidate list is built, and raiseIntent ends
  with a TypeError having done nothing.
\<close>

theorem candidates_unregistered_listener:
  "candidates unregistered_state ''ViewChart'' = Inl TypeError \<and>
   raiseIntent portB ''ViewChart'' demo_ctx unregistered_state =
     Result (Some TypeError) unregistered_state []"
  by (simp add: raiseIntent_def candidates_def unregistered_state_def demo_entry_def demo_defs)

section \<open>Joining a channel\<close>

lemma joinChannel_ignores_restoreOnly:
  "joinChannel channels port chan True s = joinChannel channels port chan False s"
  by (simp add: joinChannel_def)

lemma joinChannel_catalog_channel:
  assumes "connected s (app_id port) = Some c"
    and "contextListeners s (channel_or_default s c) = Some prev"
    and "find (\<lambda>ch. chan_id ch = chan) channels = Some selected"
    and "contexts s chan = Some history"
    and "\<not> inherited chan"
  shows "err (joinChannel channels port chan restoreOnly s) = None \<and>
         out (joinChannel channels port chan restoreOnly s) =
           [SetBadgeText ''+'' (tab_id port),
            SetBadgeBackgroundColor (color selected) (tab_id port),
            PostMessage port
              (Message ''context'' (ContextData (case history of [] \<Rightarrow> None | x # xs \<Rightarrow> Some x)))]"
  using assms
  by (cases "contextListeners s chan") (auto simp: joinChannel_def Let_def get_property_def)

text \<open>
  C3 at a failing input. The channel \<open>red\<close> holds one earlier context. A port joins it
  with \<open>restoreOnly\<close> set, as the content script does after a reload, and is sent that
  context all the same.
\<close>

theorem joinChannel_restoreOnly_delivers:
  "err (joinChannel demo_channels portA ''red'' True red_history_state) = None \<and>
   out (joinChannel demo_channels portA ''red'' True red_history_state) =
     [SetBadgeText ''+'' 1, SetBadgeBackgroundColor ''#ff0000'' 1,
      PostMessage portA (Message ''context'' (ContextData (Some demo_ctx)))]"
  by (simp add: joinChannel_def channel_or_default_def red_history_state_def demo_defs)

lemma joinChannel_unknown_channel:
  assumes "connected s (app_id port) = Some c"
    and "contextListeners s (channel_or_default s c) = Some prev"
    and "find (\<lambda>ch. chan_id ch = chan) channels = None"
    and "\<not> inherited chan"
  shows "err (joinChannel channels port chan restoreOnly s) = Some TypeError \<and>
         out (joinChannel channels port chan restoreOnly s) = [SetBadgeText ''+'' (tab_id port)] \<and>
         (\<exists>ls. contextListeners (st (joinChannel channels port chan restoreOnly s)) chan =
                 Some (ls @ [app_id port])) \<and>
         tabChannels (st (joinChannel channels port chan restoreOnly s))
           (string_of_nat (tab_id port)) = Some chan \<and>
         port_channel (st (joinChannel channels port chan restoreOnly s)) (pid c) = Some chan"
  using assms
  by (cases "contextListeners s chan") (auto simp: joinChannel_def Let_def get_property_def)

lemma joinChannel_inherited_name:
  assumes "connected s (app_id port) = Some c"
    and "contextListeners s (channel_or_default s c) = Some prev"
    and "contextListeners s chan = None" and "inherited chan"
  shows "joinChannel channels port chan restoreOnly s =
           Result (Some TypeError)
             (s\<lparr>contextListeners :=
                  (contextListeners s)
                    (channel_or_default s c \<mapsto> filter (\<lambda>i. i \<noteq> app_id port) prev)\<rparr>) []"
  using assms by (auto simp: joinChannel_def Let_def get_property_def)

text \<open>
  C9 at a failing input. \<open>blue\<close> is not one of the imported channels. The join creates
  its listener array, adds the port and records the tab's channel, and then throws a
  TypeError at the badge colour: the handler does not complete, and the context
  message is never posted.
\<close>

theorem joinChannel_unknown_channel_throws:
  "err (joinChannel demo_channels portA ''blue'' False demo_state) = Some TypeError \<and>
   out (joinChannel demo_channels portA ''blue'' False demo_state) = [SetBadgeText ''+'' 1] \<and>
   contextListeners (st (joinChannel demo_channels portA ''blue'' False demo_state)) ''blue'' =
     Some [''ext1''] \<and>
   tabChannels (st (joinChannel demo_channels portA ''blue'' False demo_state)) ''1'' =
     Some ''blue''"
  by (simp add: joinChannel_def channel_or_default_def demo_defs)

section \<open>No handler\<close>

lemma raiseIntent_no_candidates:
  "candidates s i = Inr [] \<Longrightarrow> raiseIntent port i ctx s = Result None s []"
  by (simp add: raiseIntent_def)

text \<open>
  C5 at a failing input. Nobody listens for \<open>ViewNews\<close> and the directory is empty:
  raiseIntent builds the empty candidate list and returns without posting anything,
  to the raiser or to anyone else.
\<close>

theorem raiseIntent_no_handler_silent:
  "candidates demo_state ''ViewNews'' = Inr [] \<and>
   raiseIntent portA ''ViewNews'' demo_ctx demo_state = Result None demo_state []"
  by (simp add: raiseIntent_def candidates_def demo_defs)

section \<open>Launch URLs\<close>

text \<open>
  The continuation of resolveIntent builds the URL of the example; \<open>replace\<close> fills
  the first occurrence of a placeholder only, and leaves a placeholder without a value
  as it is. The continuation of raiseIntent always throws.
\<close>

lemma raiseIntent_launch_never_opens:
  "raiseIntent_launch mD i ctx = Inl TypeError \<or> raiseIntent_launch mD i ctx = Inl ReferenceError"
  by (simp add: raiseIntent_launch_def contentManifest_def split: option.splits)

lemma resolveIntent_launch_example:
  "on_fetched (LaunchResolved demo_entry ''ViewChart'' demo_ctx) demo_manifest =
     Inr [WindowOpen (Some ''app://open?sym=MSFT'') (Some ''Charts''), WindowFocus]"
  by (simp add: on_fetched_def resolveIntent_launch_def demo_manifest_def demo_entry_def demo_ctx_def
      truthy_def eval_url_def replace_with_def js_replace_def ctx_get_def read_property_def
      assign_def to_string_def)

lemma substitute_first_occurrence_only:
  "substitute ''${a}-${a}'' [(''a'', Str ''x'')] = Inr ''x-${a}''"
  by (simp add: replace_with_def js_replace_def to_string_def)

lemma js_replace_absent:
  "split_first pat str = None \<Longrightarrow> js_replace str pat replacement = str"
  by (simp add: js_replace_def)

lemma ctx_get_inherited:
  "ctx_get demo_ctx ''toString'' = Native ''toString'' \<and>
   ctx_get demo_ctx ''constructor'' = Native ''Object'' \<and>
   ctx_get demo_ctx ''ticker'' = Str ''MSFT'' \<and>
   ctx_get demo_ctx ''isin'' = Undefined"
  by (simp add: ctx_get_def read_property_def prototype_value_def demo_defs)

lemma substitute_inherited_value:
  "substitute ''q=${a}'' [(''a'', Native ''Object'')] = Inr ''q=${a}'' \<and>
   substitute ''q=${a}'' [(''a'', Native ''toString'')] = Inr ''q=[object Undefined]'' \<and>
   substitute ''q=${a}'' [(''a'', Native ''valueOf'')] = Inl TypeError"
  by (simp add: replace_with_def native_call_def)

lemma replace_with_absent:
  "split_first pat str = None \<Longrightarrow> replace_with str pat v = Inr str"
  by (cases v) (simp_all add: replace_with_def js_replace_def)

lemma substitute_unmatched_verbatim:
  "substitute ''q=${b}'' [(''a'', Str ''x'')] = Inr ''q=${b}''"
  by (simp add: replace_with_def js_replace_def to_string_def)

text \<open>
  C4 at a failing input. With no listener and one directory entry that declares
  \<open>ViewChart\<close>, raiseIntent fetches that entry's manifest. When the manifest of the
  example arrives, the continuation throws a ReferenceError at \<open>contentManifest\<close>
  before any parameter is read: no URL is built and no window is opened.
\<close>

theorem raiseIntent_single_directory_candidate_throws:
  "raiseIntent portA ''ViewChart'' demo_ctx directory_only_state =
     Result None directory_only_state
       [Fetch (Some ''https://charts.example/manifest.json'') (LaunchRaised ''ViewChart'' demo_ctx)] \<and>
   on_fetched (LaunchRaised ''ViewChart'' demo_ctx) demo_manifest = Inl ReferenceError"
  by (simp add: raiseIntent_def candidates_def directory_only_state_def fresh_state_def
      demo_entry_def demo_defs on_fetched_def raiseIntent_launch_def contentManifest_def
      demo_manifest_def)

end
